theory Spec2Isabelle
  imports Complex_Main
begin

section \<open>Floating-point values\<close>

text \<open>
  The profiles compute on double-precision numbers (astropy quantities over numpy). The model
  works in exact real arithmetic: rounding and overflow are not modelled. A value of type
  \<open>fl\<close> is \<open>Some x\<close> for the finite number \<open>x\<close> and \<open>None\<close> for a non-finite result
  (\<open>inf\<close> or \<open>nan\<close>), which numpy produces with a warning instead of an exception: a
  division by zero, the logarithm of a non-positive number, the square root of a negative
  number, a negative base raised to a non-integer power. \<open>None\<close> is absorbing in the model:
  once a non-finite value has appeared, the result is reported as non-finite.

  Magnitudes follow the units of the constructors: radii and scale radii in kpc, densities in
  GeV/cm3, angles in rad.
\<close>

type_synonym fl = "real option"

definition fl_lift2 :: "(real \<Rightarrow> real \<Rightarrow> real) \<Rightarrow> fl \<Rightarrow> fl \<Rightarrow> fl" where
  "fl_lift2 f a b =
     (case a of None \<Rightarrow> None
      | Some x \<Rightarrow> (case b of None \<Rightarrow> None | Some y \<Rightarrow> Some (f x y)))"

definition fl_add :: "fl \<Rightarrow> fl \<Rightarrow> fl" where
  "fl_add = fl_lift2 (\<lambda>x y. x + y)"

definition fl_sub :: "fl \<Rightarrow> fl \<Rightarrow> fl" where
  "fl_sub = fl_lift2 (\<lambda>x y. x - y)"

definition fl_mul :: "fl \<Rightarrow> fl \<Rightarrow> fl" where
  "fl_mul = fl_lift2 (\<lambda>x y. x * y)"

definition fl_div :: "fl \<Rightarrow> fl \<Rightarrow> fl" where
  "fl_div a b =
     (case a of None \<Rightarrow> None
      | Some x \<Rightarrow> (case b of None \<Rightarrow> None
                  | Some y \<Rightarrow> if y = 0 then None else Some (x / y)))"

definition fl_pow :: "fl \<Rightarrow> fl \<Rightarrow> fl" where
  \<comment> \<open>\<open>a ** b\<close>: a positive base takes any exponent; zero to a negative power is \<open>inf\<close>;
      a negative base takes integer exponents only, anything else is \<open>nan\<close>.\<close>
  "fl_pow a b =
     (case a of None \<Rightarrow> None
      | Some x \<Rightarrow> (case b of None \<Rightarrow> None
                  | Some y \<Rightarrow>
                      if 0 < x then Some (x powr y)
                      else if x = 0 then
                        (if 0 < y then Some 0 else if y = 0 then Some 1 else None)
                      else if y = of_int \<lfloor>y\<rfloor> then Some (x powi \<lfloor>y\<rfloor>)
                      else None))"

definition fl_exp :: "fl \<Rightarrow> fl" where
  "fl_exp a = map_option exp a"

definition fl_sin :: "fl \<Rightarrow> fl" where
  "fl_sin a = map_option sin a"

definition fl_sqrt :: "fl \<Rightarrow> fl" where
  "fl_sqrt a = (case a of None \<Rightarrow> None | Some x \<Rightarrow> if x < 0 then None else Some (sqrt x))"

definition fl_log10 :: "fl \<Rightarrow> fl" where
  "fl_log10 a = (case a of None \<Rightarrow> None | Some x \<Rightarrow> if x \<le> 0 then None else Some (log 10 x))"


section \<open>The six density formulas\<close>

text \<open>Each \<open>evaluate\<close> is a static method: a function of the radius and the named parameters.\<close>

definition ZhaoProfile_evaluate :: "fl \<Rightarrow> fl \<Rightarrow> fl \<Rightarrow> fl \<Rightarrow> fl \<Rightarrow> fl \<Rightarrow> fl" where
  "ZhaoProfile_evaluate radius r_s alpha beta gamma rho_s =
     (let rr = fl_div radius r_s
      in fl_div rho_s
           (fl_mul (fl_pow rr gamma)
                   (fl_pow (fl_add (Some 1) (fl_pow rr alpha))
                           (fl_div (fl_sub beta gamma) alpha))))"

definition NFWProfile_evaluate :: "fl \<Rightarrow> fl \<Rightarrow> fl \<Rightarrow> fl" where
  "NFWProfile_evaluate radius r_s rho_s =
     (let rr = fl_div radius r_s
      in fl_div rho_s (fl_mul rr (fl_pow (fl_add (Some 1) rr) (Some 2))))"

definition EinastoProfile_evaluate :: "fl \<Rightarrow> fl \<Rightarrow> fl \<Rightarrow> fl \<Rightarrow> fl" where
  "EinastoProfile_evaluate radius r_s alpha rho_s =
     (let rr = fl_div radius r_s;
          exponent = fl_mul (fl_div (Some 2) alpha) (fl_sub (fl_pow rr alpha) (Some 1))
      in fl_mul rho_s (fl_exp (fl_mul (Some (- 1)) exponent)))"

definition IsothermalProfile_evaluate :: "fl \<Rightarrow> fl \<Rightarrow> fl \<Rightarrow> fl" where
  "IsothermalProfile_evaluate radius r_s rho_s =
     (let rr = fl_div radius r_s
      in fl_div rho_s (fl_add (Some 1) (fl_pow rr (Some 2))))"

definition BurkertProfile_evaluate :: "fl \<Rightarrow> fl \<Rightarrow> fl \<Rightarrow> fl" where
  "BurkertProfile_evaluate radius r_s rho_s =
     (let rr = fl_div radius r_s
      in fl_div rho_s
           (fl_mul (fl_add (Some 1) rr) (fl_add (Some 1) (fl_pow rr (Some 2)))))"

definition MooreProfile_evaluate :: "fl \<Rightarrow> fl \<Rightarrow> fl \<Rightarrow> fl" where
  "MooreProfile_evaluate radius r_s rho_s =
     (let rr = fl_div radius r_s;
          rr' = fl_div r_s radius
      in fl_mul (fl_mul rho_s (fl_pow rr' (Some (116 / 100))))
                (fl_pow (fl_add (Some 1) rr) (Some (- (184 / 100)))))"

text \<open>
  The formulas as the class docstrings give them, over the reals, in the ratio
  \<open>x = r / r_s\<close>.
\<close>

definition Zhao_formula :: "real \<Rightarrow> real \<Rightarrow> real \<Rightarrow> real \<Rightarrow> real \<Rightarrow> real" where
  "Zhao_formula x alpha beta gamma rho_s =
     rho_s * (1 / x) powr gamma * (1 + x powr alpha) powr ((gamma - beta) / alpha)"

definition NFW_formula :: "real \<Rightarrow> real \<Rightarrow> real" where
  "NFW_formula x rho_s = rho_s * (1 / x) * (1 + x) powr (- 2)"

definition Einasto_formula :: "real \<Rightarrow> real \<Rightarrow> real \<Rightarrow> real" where
  "Einasto_formula x alpha rho_s = rho_s * exp (- (2 / alpha) * (x powr alpha - 1))"

definition Isothermal_formula :: "real \<Rightarrow> real \<Rightarrow> real" where
  "Isothermal_formula x rho_s = rho_s / (1 + x\<^sup>2)"

definition Burkert_formula :: "real \<Rightarrow> real \<Rightarrow> real" where
  "Burkert_formula x rho_s = rho_s / ((1 + x) * (1 + x\<^sup>2))"

definition Moore_formula :: "real \<Rightarrow> real \<Rightarrow> real" where
  "Moore_formula x rho_s = rho_s * (1 / x) powr (116 / 100) * (1 + x) powr (- (184 / 100))"


section \<open>Profiles and their parameters\<close>

datatype error = TypeError | IndexError | ValueError | UndefinedCast

definition bind_res :: "error + 'a \<Rightarrow> ('a \<Rightarrow> error + 'b) \<Rightarrow> error + 'b" where
  "bind_res r f = (case r of Inl e \<Rightarrow> Inl e | Inr v \<Rightarrow> f v)"

text \<open>
  A numpy value of dimension at most one: a scalar or a one-dimensional array. A binary
  operation on two arrays broadcasts: equal lengths pair up, a length-one array is
  stretched, anything else raises \<open>ValueError\<close>.
\<close>

datatype nd = Scalar fl | Arr "fl list"

fun nd_map :: "(fl \<Rightarrow> fl) \<Rightarrow> nd \<Rightarrow> nd" where
  "nd_map f (Scalar a) = Scalar (f a)"
| "nd_map f (Arr as) = Arr (map f as)"

fun broadcast2 :: "(fl \<Rightarrow> fl \<Rightarrow> fl) \<Rightarrow> nd \<Rightarrow> nd \<Rightarrow> error + nd" where
  "broadcast2 f (Scalar a) (Scalar b) = Inr (Scalar (f a b))"
| "broadcast2 f (Scalar a) (Arr bs) = Inr (Arr (map (f a) bs))"
| "broadcast2 f (Arr as) (Scalar b) = Inr (Arr (map (\<lambda>a. f a b) as))"
| "broadcast2 f (Arr as) (Arr bs) =
     (if length as = length bs then Inr (Arr (map2 f as bs))
      else if length as = 1 then Inr (Arr (map (f (hd as)) bs))
      else if length bs = 1 then Inr (Arr (map (\<lambda>a. f a (hd bs)) as))
      else Inl ValueError)"

fun nd_sum :: "nd \<Rightarrow> fl" where
  "nd_sum (Scalar a) = a"
| "nd_sum (Arr as) = foldl fl_add (Some 0) as"

record Parameter =
  par_name :: string
  par_value :: fl

datatype kind = Zhao | NFW | Einasto | Isothermal | Burkert | Moore

record profile =
  kind :: kind
  parameters :: "Parameter list"

definition LOCAL_DENSITY :: fl where
  "LOCAL_DENSITY = Some (3 / 10)"

definition DISTANCE_GC :: fl where
  "DISTANCE_GC = Some (833 / 100)"

definition default_arg :: "'a \<Rightarrow> 'a option \<Rightarrow> 'a" where
  \<comment> \<open>\<open>DEFAULT if x is None else x\<close>\<close>
  "default_arg d x = (case x of None \<Rightarrow> d | Some v \<Rightarrow> v)"

definition unit_density :: fl where
  \<comment> \<open>the default of the keyword \<open>rho_s\<close>: 1 GeV / cm3\<close>
  "unit_density = Some 1"

definition ZhaoProfile_init ::
  "fl option \<Rightarrow> fl option \<Rightarrow> fl option \<Rightarrow> fl option \<Rightarrow> fl option \<Rightarrow> profile" where
  "ZhaoProfile_init r_s alpha beta gamma rho_s =
     \<lparr>kind = Zhao,
      parameters =
        [\<lparr>par_name = ''r_s'', par_value = default_arg (Some (2442 / 100)) r_s\<rparr>,
         \<lparr>par_name = ''rho_s'', par_value = default_arg unit_density rho_s\<rparr>,
         \<lparr>par_name = ''alpha'', par_value = default_arg (Some 1) alpha\<rparr>,
         \<lparr>par_name = ''beta'', par_value = default_arg (Some 3) beta\<rparr>,
         \<lparr>par_name = ''gamma'', par_value = default_arg (Some 1) gamma\<rparr>]\<rparr>"

definition NFWProfile_init :: "fl option \<Rightarrow> fl option \<Rightarrow> profile" where
  "NFWProfile_init r_s rho_s =
     \<lparr>kind = NFW,
      parameters =
        [\<lparr>par_name = ''r_s'', par_value = default_arg (Some (2442 / 100)) r_s\<rparr>,
         \<lparr>par_name = ''rho_s'', par_value = default_arg unit_density rho_s\<rparr>]\<rparr>"

definition EinastoProfile_init :: "fl option \<Rightarrow> fl option \<Rightarrow> fl option \<Rightarrow> profile" where
  "EinastoProfile_init r_s alpha rho_s =
     \<lparr>kind = Einasto,
      parameters =
        [\<lparr>par_name = ''r_s'', par_value = default_arg (Some (2844 / 100)) r_s\<rparr>,
         \<lparr>par_name = ''alpha'', par_value = default_arg (Some (17 / 100)) alpha\<rparr>,
         \<lparr>par_name = ''rho_s'', par_value = default_arg unit_density rho_s\<rparr>]\<rparr>"

definition IsothermalProfile_init :: "fl option \<Rightarrow> fl option \<Rightarrow> profile" where
  "IsothermalProfile_init r_s rho_s =
     \<lparr>kind = Isothermal,
      parameters =
        [\<lparr>par_name = ''r_s'', par_value = default_arg (Some (438 / 100)) r_s\<rparr>,
         \<lparr>par_name = ''rho_s'', par_value = default_arg unit_density rho_s\<rparr>]\<rparr>"

definition BurkertProfile_init :: "fl option \<Rightarrow> fl option \<Rightarrow> profile" where
  "BurkertProfile_init r_s rho_s =
     \<lparr>kind = Burkert,
      parameters =
        [\<lparr>par_name = ''r_s'', par_value = default_arg (Some (1267 / 100)) r_s\<rparr>,
         \<lparr>par_name = ''rho_s'', par_value = default_arg unit_density rho_s\<rparr>]\<rparr>"

definition MooreProfile_init :: "fl option \<Rightarrow> fl option \<Rightarrow> profile" where
  "MooreProfile_init r_s rho_s =
     \<lparr>kind = Moore,
      parameters =
        [\<lparr>par_name = ''r_s'', par_value = default_arg (Some (3028 / 100)) r_s\<rparr>,
         \<lparr>par_name = ''rho_s'', par_value = default_arg unit_density rho_s\<rparr>]\<rparr>"

text \<open>
  \<open>__call__\<close> collects the parameters into keyword arguments, a later parameter of the
  same name replacing an earlier one, and passes them to the \<open>evaluate\<close> of the profile's
  class. Python raises \<open>TypeError\<close> for a keyword the signature does not have and for a
  missing one. The formulas are vectorised over the radius.
\<close>

definition kwargs :: "profile \<Rightarrow> (string \<times> fl) list" where
  "kwargs p = map (\<lambda>q. (par_name q, par_value q)) (parameters p)"

definition signature :: "kind \<Rightarrow> string list" where
  "signature k =
     (case k of
        Zhao \<Rightarrow> [''r_s'', ''alpha'', ''beta'', ''gamma'', ''rho_s'']
      | NFW \<Rightarrow> [''r_s'', ''rho_s'']
      | Einasto \<Rightarrow> [''r_s'', ''alpha'', ''rho_s'']
      | Isothermal \<Rightarrow> [''r_s'', ''rho_s'']
      | Burkert \<Rightarrow> [''r_s'', ''rho_s'']
      | Moore \<Rightarrow> [''r_s'', ''rho_s''])"

definition with_arg :: "(string \<rightharpoonup> fl) \<Rightarrow> string \<Rightarrow> (fl \<Rightarrow> error + 'a) \<Rightarrow> error + 'a" where
  "with_arg kw n f = (case kw n of None \<Rightarrow> Inl TypeError | Some v \<Rightarrow> f v)"

fun evaluate :: "kind \<Rightarrow> nd \<Rightarrow> (string \<rightharpoonup> fl) \<Rightarrow> error + nd" where
  "evaluate Zhao radius kw =
     with_arg kw ''r_s'' (\<lambda>r_s. with_arg kw ''alpha'' (\<lambda>alpha. with_arg kw ''beta'' (\<lambda>beta.
     with_arg kw ''gamma'' (\<lambda>gamma. with_arg kw ''rho_s'' (\<lambda>rho_s.
       Inr (nd_map (\<lambda>r. ZhaoProfile_evaluate r r_s alpha beta gamma rho_s) radius))))))"
| "evaluate NFW radius kw =
     with_arg kw ''r_s'' (\<lambda>r_s. with_arg kw ''rho_s'' (\<lambda>rho_s.
       Inr (nd_map (\<lambda>r. NFWProfile_evaluate r r_s rho_s) radius)))"
| "evaluate Einasto radius kw =
     with_arg kw ''r_s'' (\<lambda>r_s. with_arg kw ''alpha'' (\<lambda>alpha. with_arg kw ''rho_s'' (\<lambda>rho_s.
       Inr (nd_map (\<lambda>r. EinastoProfile_evaluate r r_s alpha rho_s) radius))))"
| "evaluate Isothermal radius kw =
     with_arg kw ''r_s'' (\<lambda>r_s. with_arg kw ''rho_s'' (\<lambda>rho_s.
       Inr (nd_map (\<lambda>r. IsothermalProfile_evaluate r r_s rho_s) radius)))"
| "evaluate Burkert radius kw =
     with_arg kw ''r_s'' (\<lambda>r_s. with_arg kw ''rho_s'' (\<lambda>rho_s.
       Inr (nd_map (\<lambda>r. BurkertProfile_evaluate r r_s rho_s) radius)))"
| "evaluate Moore radius kw =
     with_arg kw ''r_s'' (\<lambda>r_s. with_arg kw ''rho_s'' (\<lambda>rho_s.
       Inr (nd_map (\<lambda>r. MooreProfile_evaluate r r_s rho_s) radius)))"

definition kw_of :: "Parameter list \<Rightarrow> (string \<rightharpoonup> fl)" where
  \<comment> \<open>the keyword arguments as a map, first occurrence of a name first\<close>
  "kw_of ps = map_of (map (\<lambda>q. (par_name q, par_value q)) ps)"

definition well_formed :: "profile \<Rightarrow> bool" where
  \<comment> \<open>the parameters of the profile are the keywords of its \<open>evaluate\<close>, each once\<close>
  "well_formed p =
     (distinct (map par_name (parameters p)) \<and>
      set (map par_name (parameters p)) = set (signature (kind p)))"

definition profile_call :: "profile \<Rightarrow> nd \<Rightarrow> error + nd" where
  "profile_call p radius =
     (let kw = kwargs p
      in if list_all (\<lambda>n. n \<in> set (signature (kind p))) (map fst kw)
         then evaluate (kind p) radius (map_of (rev kw))
         else Inl TypeError)"

text \<open>
  \<open>self.parameters["rho_s"].value *= scale\<close>: the first parameter of that name is
  updated in place; looking up a name the collection does not hold raises.
\<close>

fun update_value :: "string \<Rightarrow> (fl \<Rightarrow> fl) \<Rightarrow> Parameter list \<Rightarrow> error + Parameter list" where
  "update_value n f [] = Inl IndexError"
| "update_value n f (q # qs) =
     (if par_name q = n then Inr (q\<lparr>par_value := f (par_value q)\<rparr> # qs)
      else bind_res (update_value n f qs) (\<lambda>qs'. Inr (q # qs')))"

definition scale_to_local_density :: "profile \<Rightarrow> error + profile" where
  "scale_to_local_density p =
     bind_res (profile_call p (Scalar DISTANCE_GC)) (\<lambda>d.
       case d of
         Scalar v \<Rightarrow>
           (let scale = fl_div LOCAL_DENSITY v
            in bind_res (update_value ''rho_s'' (\<lambda>x. fl_mul x scale) (parameters p))
                 (\<lambda>ps. Inr (p\<lparr>parameters := ps\<rparr>)))
       | Arr vs \<Rightarrow> Inl TypeError)"


section \<open>The squared-density integrand\<close>

text \<open>
  \<open>_eval_squared\<close>, with the radius in kpc. The operands broadcast as numpy does; nothing
  checks the radius against the tangent radius \<open>DISTANCE_GC * sin separation\<close>.
\<close>

definition eval_squared :: "profile \<Rightarrow> nd \<Rightarrow> nd \<Rightarrow> error + nd" where
  "eval_squared p radius separation =
     bind_res (profile_call p radius) (\<lambda>rho.
     bind_res (broadcast2 fl_mul (nd_map (\<lambda>v. fl_pow v (Some 2)) rho) radius) (\<lambda>num.
     bind_res (broadcast2 fl_sub
                 (nd_map (\<lambda>v. fl_pow v (Some 2)) radius)
                 (nd_map (\<lambda>s. fl_pow (fl_mul DISTANCE_GC (fl_sin s)) (Some 2)) separation))
       (\<lambda>d. broadcast2 fl_div num (nd_map fl_sqrt d))))"


section \<open>Log-log quadrature\<close>

text \<open>Lengths carry a unit; \<open>to_value\<close> converts a length to a given unit.\<close>

datatype length_unit = Pc | Kpc | Mpc

fun in_kpc :: "length_unit \<Rightarrow> real" where
  "in_kpc Pc = 1 / 1000"
| "in_kpc Kpc = 1"
| "in_kpc Mpc = 1000"

record quantity =
  qvalue :: fl
  qunit :: length_unit

definition to_value :: "length_unit \<Rightarrow> quantity \<Rightarrow> fl" where
  "to_value u q = fl_mul (qvalue q) (Some (in_kpc (qunit q) / in_kpc u))"

definition np_int32 :: "fl \<Rightarrow> error + int" where
  \<comment> \<open>\<open>np.int32(v)\<close> truncates towards zero. C leaves the conversion of \<open>nan\<close>, of
      \<open>inf\<close> and of a value outside the 32-bit range undefined: the model stops there.\<close>
  "np_int32 a =
     (case a of
        None \<Rightarrow> Inl UndefinedCast
      | Some v \<Rightarrow>
          (let t = (if 0 \<le> v then \<lfloor>v\<rfloor> else \<lceil>v\<rceil>)
           in if - (2 ^ 31) \<le> t \<and> t < 2 ^ 31 then Inr t else Inl UndefinedCast))"

definition logspace :: "fl \<Rightarrow> fl \<Rightarrow> int \<Rightarrow> error + fl list" where
  \<comment> \<open>\<open>np.logspace(start, stop, num)\<close>: \<open>num\<close> powers of ten with evenly spaced exponents,
      both ends included; a negative \<open>num\<close> raises.\<close>
  "logspace start stop num =
     (if num < 0 then Inl ValueError
      else
        (let step = (if num = 1 then Some 0
                     else fl_div (fl_sub stop start) (Some (of_int (num - 1))))
         in Inr (map (\<lambda>i. fl_pow (Some 10) (fl_add start (fl_mul (Some (real i)) step)))
                   [0..<nat num])))"

definition fl_ln :: "fl \<Rightarrow> fl" where
  "fl_ln a = (case a of None \<Rightarrow> None | Some x \<Rightarrow> if x \<le> 0 then None else Some (ln x))"

definition loglog_segment :: "(fl \<times> fl) \<Rightarrow> (fl \<times> fl) \<Rightarrow> fl" where
  \<comment> \<open>Modelled from the spec: \<open>gammapy.utils.integrate.trapz_loglog\<close> is imported by the
      profiles but its module is not among the sources. Between two adjacent nodes the
      power law \<open>y = a * x ** b\<close> through both points is integrated analytically, the
      exponent \<open>b = -1\<close> giving the logarithmic segment.\<close>
  "loglog_segment xs ys =
     (case xs of (x0, x1) \<Rightarrow> case ys of (y0, y1) \<Rightarrow>
        (let t = fl_div x1 x0;
             b = fl_div (fl_ln (fl_div y1 y0)) (fl_ln t)
         in if b = Some (- 1) then fl_mul (fl_mul x0 y0) (fl_ln t)
            else fl_mul (fl_div (fl_mul x0 y0) (fl_add b (Some 1)))
                        (fl_sub (fl_pow t (fl_add b (Some 1))) (Some 1))))"

definition trapz_loglog :: "nd \<Rightarrow> nd \<Rightarrow> error + nd" where
  \<comment> \<open>Modelled from the spec: the per-segment contributions over the adjacent pairs of
      nodes \<open>(x[:-1], x[1:])\<close>, one value per segment; the caller sums them. A value that
      cannot be sliced, or values and nodes of different lengths, raise.\<close>
  "trapz_loglog y x =
     (case y of
        Scalar a \<Rightarrow> Inl IndexError
      | Arr ys \<Rightarrow>
          (case x of
             Scalar b \<Rightarrow> Inl IndexError
           | Arr xs \<Rightarrow>
               if length ys = length xs
               then Inr (Arr (map2 loglog_segment (zip (butlast xs) (tl xs))
                                                  (zip (butlast ys) (tl ys))))
               else Inl ValueError))"

definition quadrature_grid :: "quantity \<Rightarrow> quantity \<Rightarrow> real \<Rightarrow> error + fl list" where
  \<comment> \<open>The first lines of \<open>integrate_spectrum_separation\<close>, up to \<open>np.logspace\<close>: the
      magnitudes of the nodes, in the unit of \<open>xmin\<close>.\<close>
  "quadrature_grid xmin xmax ndecade =
     (let unit = qunit xmin;
          xmin' = qvalue xmin;
          xmax' = to_value unit xmax;
          logmin = fl_log10 xmin';
          logmax = fl_log10 xmax'
      in bind_res (np_int32 (fl_mul (fl_sub logmax logmin) (Some ndecade))) (\<lambda>n.
           logspace logmin logmax n))"

definition grid_size :: "quantity \<Rightarrow> quantity \<Rightarrow> real \<Rightarrow> error + nat" where
  \<comment> \<open>the number of nodes of the grid, when it is built\<close>
  "grid_size xmin xmax ndecade =
     (case quadrature_grid xmin xmax ndecade of
        Inl e \<Rightarrow> Inl e
      | Inr nodes \<Rightarrow> Inr (length nodes))"

definition integrate_spectrum_separation ::
  "(nd \<Rightarrow> nd \<Rightarrow> error + nd) \<Rightarrow> quantity \<Rightarrow> quantity \<Rightarrow> nd \<Rightarrow> real \<Rightarrow> error + fl" where
  \<comment> \<open>\<open>x * unit\<close> is the length the nodes stand for, held in kpc. The result is in the
      unit of \<open>y\<close> times kpc.\<close>
  "integrate_spectrum_separation func xmin xmax separation ndecade =
     bind_res (quadrature_grid xmin xmax ndecade) (\<lambda>nodes.
       (let x = Arr (map (\<lambda>v. fl_mul v (Some (in_kpc (qunit xmin)))) nodes)
        in bind_res (func x separation) (\<lambda>y.
           bind_res (trapz_loglog y x) (\<lambda>val. Inr (nd_sum val)))))"

definition integral ::
  "real \<Rightarrow> profile \<Rightarrow> quantity \<Rightarrow> quantity \<Rightarrow> nd \<Rightarrow> real \<Rightarrow> error + fl" where
  \<comment> \<open>\<open>kpc_in_cm\<close> is the number of centimetres in a kiloparsec, a constant of astropy:
      \<open>.to("GeV2 / cm5")\<close> multiplies the value in GeV2 cm-6 kpc by it.\<close>
  "integral kpc_in_cm p rmin rmax separation ndecade =
     bind_res (integrate_spectrum_separation (eval_squared p) rmin rmax separation ndecade)
       (\<lambda>v. Inr (fl_mul v (Some kpc_in_cm)))"


section \<open>The methods of a profile as operations on its state\<close>

text \<open>
  A profile is a mutable object. Each operation takes the profile and returns what the call
  produces, a value or the exception raised, together with the profile it leaves behind.
  Only \<open>scale_to_local_density\<close> has an assignment to a parameter.
\<close>

datatype operation =
    Call nd
  | Eval_squared nd nd
  | Integrate_spectrum_separation quantity quantity nd real
  | Integral real quantity quantity nd real
  | Scale_to_local_density

datatype outcome = Returned_nd nd | Returned_fl fl | Returned_None

definition returned :: "('a \<Rightarrow> outcome) \<Rightarrow> error + 'a \<Rightarrow> error + outcome" where
  "returned c r = (case r of Inl e \<Rightarrow> Inl e | Inr v \<Rightarrow> Inr (c v))"

fun run :: "operation \<Rightarrow> profile \<Rightarrow> (error + outcome) \<times> profile" where
  "run (Call radius) p = (returned Returned_nd (profile_call p radius), p)"
| "run (Eval_squared radius separation) p =
     (returned Returned_nd (eval_squared p radius separation), p)"
| "run (Integrate_spectrum_separation xmin xmax separation ndecade) p =
     (returned Returned_fl
        (integrate_spectrum_separation (eval_squared p) xmin xmax separation ndecade), p)"
| "run (Integral kpc_in_cm rmin rmax separation ndecade) p =
     (returned Returned_fl (integral kpc_in_cm p rmin rmax separation ndecade), p)"
| "run Scale_to_local_density p =
     (case scale_to_local_density p of
        Inl e \<Rightarrow> (Inl e, p)
      | Inr p' \<Rightarrow> (Inr Returned_None, p'))"


section \<open>Properties\<close>

subsection \<open>Arithmetic of the model\<close>

lemma fl_add_simps:
  "fl_add (Some x) (Some y) = Some (x + y)" "fl_add None b = None" "fl_add a None = None"
  by (simp_all add: fl_add_def fl_lift2_def split: option.splits)

lemma fl_sub_simps:
  "fl_sub (Some x) (Some y) = Some (x - y)" "fl_sub None b = None" "fl_sub a None = None"
  by (simp_all add: fl_sub_def fl_lift2_def split: option.splits)

lemma fl_mul_simps:
  "fl_mul (Some x) (Some y) = Some (x * y)" "fl_mul None b = None" "fl_mul a None = None"
  by (simp_all add: fl_mul_def fl_lift2_def split: option.splits)

lemma fl_div_simps:
  "fl_div (Some x) (Some y) = (if y = 0 then None else Some (x / y))"
  "fl_div None b = None" "fl_div a None = None"
  by (simp_all add: fl_div_def split: option.splits)

lemma fl_pow_None: "fl_pow None b = None" "fl_pow a None = None"
  by (simp_all add: fl_pow_def split: option.splits)

lemma fl_pow_two: "fl_pow (Some x) (Some 2) = Some (x\<^sup>2)"
proof -
  have "\<lfloor>2::real\<rfloor> = 2" by simp
  then show ?thesis by (simp add: fl_pow_def)
qed

lemma fl_pow_one: "fl_pow (Some x) (Some 1) = Some x"
  by (simp add: fl_pow_def)

lemmas fl_simps = fl_add_simps fl_sub_simps fl_mul_simps fl_div_simps fl_pow_None

lemma fl_mul_commute: "fl_mul a b = fl_mul b a"
  by (cases a; cases b) (simp_all add: fl_simps)

lemma fl_div_scale: "fl_div (fl_mul (Some c) a) b = fl_mul (Some c) (fl_div a b)"
  by (cases a; cases b) (simp_all add: fl_simps)

lemma fl_mul_scale: "fl_mul (fl_mul (Some c) a) b = fl_mul (Some c) (fl_mul a b)"
  by (cases a; cases b) (simp_all add: fl_simps mult.assoc)

lemmas evaluate_defs = ZhaoProfile_evaluate_def NFWProfile_evaluate_def
  EinastoProfile_evaluate_def IsothermalProfile_evaluate_def BurkertProfile_evaluate_def
  MooreProfile_evaluate_def


subsection \<open>The formulas\<close>

text \<open>
  C5. With \<open>(alpha, beta, gamma) = (1, 3, 1)\<close> the Zhao formula is the NFW formula: for
  every radius, scale radius and characteristic density the two \<open>evaluate\<close> return the
  same value. In the exact arithmetic of the model the equality is exact, also where both are
  non-finite.
\<close>
theorem Zhao_reduces_to_NFW:
  "ZhaoProfile_evaluate radius r_s (Some 1) (Some 3) (Some 1) rho_s =
   NFWProfile_evaluate radius r_s rho_s"
proof -
  have e: "fl_div (fl_sub (Some 3) (Some 1)) (Some 1) = Some 2"
    by (simp add: fl_simps)
  have p1: "fl_pow a (Some 1) = a" for a
    by (cases a) (simp_all add: fl_pow_one fl_pow_None)
  show ?thesis
    unfolding ZhaoProfile_evaluate_def NFWProfile_evaluate_def Let_def e p1 ..
qed

text \<open>
  C10. Every \<open>evaluate\<close> is homogeneous of degree one in the characteristic density:
  replacing \<open>rho_s\<close> by \<open>c * rho_s\<close> multiplies the density by \<open>c\<close>, for every radius,
  every value of the other parameters and every factor \<open>c\<close>.
\<close>
theorem evaluate_homogeneous:
  "ZhaoProfile_evaluate radius r_s alpha beta gamma (fl_mul (Some c) rho_s) =
     fl_mul (Some c) (ZhaoProfile_evaluate radius r_s alpha beta gamma rho_s) \<and>
   NFWProfile_evaluate radius r_s (fl_mul (Some c) rho_s) =
     fl_mul (Some c) (NFWProfile_evaluate radius r_s rho_s) \<and>
   EinastoProfile_evaluate radius r_s alpha (fl_mul (Some c) rho_s) =
     fl_mul (Some c) (EinastoProfile_evaluate radius r_s alpha rho_s) \<and>
   IsothermalProfile_evaluate radius r_s (fl_mul (Some c) rho_s) =
     fl_mul (Some c) (IsothermalProfile_evaluate radius r_s rho_s) \<and>
   BurkertProfile_evaluate radius r_s (fl_mul (Some c) rho_s) =
     fl_mul (Some c) (BurkertProfile_evaluate radius r_s rho_s) \<and>
   MooreProfile_evaluate radius r_s (fl_mul (Some c) rho_s) =
     fl_mul (Some c) (MooreProfile_evaluate radius r_s rho_s)"
  by (simp add: ZhaoProfile_evaluate_def NFWProfile_evaluate_def EinastoProfile_evaluate_def
      IsothermalProfile_evaluate_def BurkertProfile_evaluate_def MooreProfile_evaluate_def
      Let_def fl_div_scale fl_mul_scale)

lemma two_powr_m2: "(2::real) powr (- 2) = 1 / 4"
proof -
  have "(2::real) powr (- 2) = inverse (2 powr 2)" by (rule powr_minus)
  also have "(2::real) powr 2 = 4" by simp
  finally show ?thesis by simp
qed

text \<open>
  C7. At the radius \<open>r = r_s\<close>, for a scale radius other than zero and the default shape
  parameters, each of the six \<open>evaluate\<close> returns the value of its documented formula at
  \<open>r / r_s = 1\<close>; for NFW that value is \<open>rho_s / 4\<close>.
\<close>
theorem evaluate_at_scale_radius:
  assumes "r_s \<noteq> 0"
  shows
  "ZhaoProfile_evaluate (Some r_s) (Some r_s) (Some 1) (Some 3) (Some 1) (Some rho_s) =
     Some (Zhao_formula 1 1 3 1 rho_s) \<and>
   NFWProfile_evaluate (Some r_s) (Some r_s) (Some rho_s) = Some (NFW_formula 1 rho_s) \<and>
   EinastoProfile_evaluate (Some r_s) (Some r_s) (Some (17 / 100)) (Some rho_s) =
     Some (Einasto_formula 1 (17 / 100) rho_s) \<and>
   IsothermalProfile_evaluate (Some r_s) (Some r_s) (Some rho_s) =
     Some (Isothermal_formula 1 rho_s) \<and>
   BurkertProfile_evaluate (Some r_s) (Some r_s) (Some rho_s) = Some (Burkert_formula 1 rho_s) \<and>
   MooreProfile_evaluate (Some r_s) (Some r_s) (Some rho_s) = Some (Moore_formula 1 rho_s) \<and>
   NFW_formula 1 rho_s = rho_s / 4"
proof -
  have rr: "fl_div (Some r_s) (Some r_s) = Some 1"
    using assms by (simp add: fl_simps)
  have z: "ZhaoProfile_evaluate (Some r_s) (Some r_s) (Some 1) (Some 3) (Some 1) (Some rho_s) =
     Some (Zhao_formula 1 1 3 1 rho_s)"
    using assms by (simp add: ZhaoProfile_evaluate_def Let_def rr fl_simps fl_pow_one fl_pow_two
        Zhao_formula_def two_powr_m2)
  have n: "NFWProfile_evaluate (Some r_s) (Some r_s) (Some rho_s) = Some (NFW_formula 1 rho_s)"
    using assms by (simp add: NFWProfile_evaluate_def Let_def rr fl_simps fl_pow_two NFW_formula_def
        two_powr_m2)
  have e: "EinastoProfile_evaluate (Some r_s) (Some r_s) (Some (17 / 100)) (Some rho_s) =
     Some (Einasto_formula 1 (17 / 100) rho_s)"
    using assms by (simp add: EinastoProfile_evaluate_def Let_def rr fl_simps fl_pow_def fl_exp_def
        Einasto_formula_def)
  have i: "IsothermalProfile_evaluate (Some r_s) (Some r_s) (Some rho_s) =
     Some (Isothermal_formula 1 rho_s)"
    using assms by (simp add: IsothermalProfile_evaluate_def Let_def rr fl_simps fl_pow_two
        Isothermal_formula_def)
  have b: "BurkertProfile_evaluate (Some r_s) (Some r_s) (Some rho_s) =
     Some (Burkert_formula 1 rho_s)"
    using assms by (simp add: BurkertProfile_evaluate_def Let_def rr fl_simps fl_pow_two
        Burkert_formula_def)
  have m: "MooreProfile_evaluate (Some r_s) (Some r_s) (Some rho_s) =
     Some (Moore_formula 1 rho_s)"
    using assms by (simp add: MooreProfile_evaluate_def Let_def rr fl_simps fl_pow_def
        Moore_formula_def)
  have q: "NFW_formula 1 rho_s = rho_s / 4"
    by (simp add: NFW_formula_def two_powr_m2)
  from z n e i b m q show ?thesis by blast
qed

theorem evaluate_at_scale_radius_witness:
  "(2442 / 100 :: real) \<noteq> 0 \<and>
   NFWProfile_evaluate (Some (2442 / 100)) (Some (2442 / 100)) (Some 1) = Some (1 / 4)"
  using evaluate_at_scale_radius [of "2442 / 100" 1] by simp

text \<open>
  C8. A Burkert profile constructed with \<open>r_s = 12.67 kpc\<close> and \<open>rho_s = 1 GeV/cm3\<close>,
  called at the radius zero, returns the finite value \<open>rho_s\<close>: no division by zero occurs,
  which the model would report as a non-finite result.
\<close>
theorem Burkert_finite_at_origin:
  "profile_call (BurkertProfile_init (Some (Some (1267 / 100))) (Some (Some 1)))
     (Scalar (Some 0)) = Inr (Scalar (Some 1)) \<and>
   BurkertProfile_evaluate (Some 0) (Some (1267 / 100)) (Some 1) = Some 1"
  by (simp add: profile_call_def BurkertProfile_init_def default_arg_def kwargs_def
      signature_def with_arg_def BurkertProfile_evaluate_def Let_def fl_simps fl_pow_two)


subsection \<open>Parameters and rescaling\<close>

lemma map_of_rev_distinct:
  "distinct (map fst xs) \<Longrightarrow> map_of (rev xs) = map_of xs"
proof (induction xs)
  case Nil
  then show ?case by simp
next
  case (Cons a xs)
  obtain k v where a: "a = (k, v)" by (cases a)
  from Cons.prems a have notin: "k \<notin> fst ` set xs" and d: "distinct (map fst xs)" by auto
  have "map_of (rev (a # xs)) = map_of [a] ++ map_of (rev xs)" by simp
  also have "\<dots> = map_of [a] ++ map_of xs" using Cons.IH [OF d] by simp
  also have "\<dots> = map_of (a # xs)"
  proof
    fix x
    show "(map_of [a] ++ map_of xs) x = map_of (a # xs) x"
    proof (cases "map_of xs x")
      case None
      then show ?thesis using a by (simp add: map_add_def)
    next
      case (Some y)
      then have "x \<in> fst ` set xs" by (metis map_of_eq_None_iff option.distinct(1))
      with notin have "x \<noteq> k" by auto
      with Some a show ?thesis by (simp add: map_add_def)
    qed
  qed
  finally show ?case .
qed

lemma kwargs_lookup:
  "distinct (map par_name (parameters p)) \<Longrightarrow> map_of (rev (kwargs p)) = kw_of (parameters p)"
  unfolding kwargs_def kw_of_def
  by (rule map_of_rev_distinct) (simp add: comp_def)

lemma update_value_names:
  "update_value n f ps = Inr ps' \<Longrightarrow> map par_name ps' = map par_name ps"
  by (induction ps arbitrary: ps')
     (auto simp: bind_res_def split: if_splits sum.splits)

lemma update_value_kw:
  "update_value n f ps = Inr ps' \<Longrightarrow> kw_of ps n = Some v \<Longrightarrow>
   kw_of ps' = (kw_of ps)(n \<mapsto> f v)"
proof (induction ps arbitrary: ps')
  case Nil
  then show ?case by simp
next
  case (Cons q qs)
  show ?case
  proof (cases "par_name q = n")
    case True
    with Cons.prems show ?thesis by (auto simp: kw_of_def)
  next
    case False
    with Cons.prems obtain qs' where u: "update_value n f qs = Inr qs'" and p: "ps' = q # qs'"
      by (auto simp: bind_res_def split: sum.splits)
    from Cons.prems False have "kw_of qs n = Some v" by (simp add: kw_of_def)
    from Cons.IH [OF u this] have "kw_of qs' = (kw_of qs)(n \<mapsto> f v)" .
    with False p show ?thesis by (auto simp: kw_of_def)
  qed
qed

lemma update_value_defined:
  "kw_of ps n = Some v \<Longrightarrow> \<exists>ps'. update_value n f ps = Inr ps'"
  by (induction ps) (auto simp: kw_of_def bind_res_def split: if_splits)

lemma update_value_id:
  "kw_of ps n = Some v \<Longrightarrow> f v = v \<Longrightarrow> distinct (map par_name ps) \<Longrightarrow>
   update_value n f ps = Inr ps"
proof (induction ps)
  case Nil
  then show ?case by (simp add: kw_of_def)
next
  case (Cons q qs)
  show ?case
  proof (cases "par_name q = n")
    case True
    with Cons.prems show ?thesis by (simp add: kw_of_def)
  next
    case False
    with Cons.prems have "update_value n f qs = Inr qs" by (intro Cons.IH) (auto simp: kw_of_def)
    with False show ?thesis by (simp add: bind_res_def)
  qed
qed

lemma update_value_others:
  "update_value n f ps = Inr ps' \<Longrightarrow>
   filter (\<lambda>q. par_name q \<noteq> n) ps' = filter (\<lambda>q. par_name q \<noteq> n) ps"
  by (induction ps arbitrary: ps')
     (auto simp: bind_res_def split: if_splits sum.splits)

lemma formulas_scale:
  "ZhaoProfile_evaluate r r_s alpha beta gamma (fl_mul (Some c) rho_s) =
     fl_mul (Some c) (ZhaoProfile_evaluate r r_s alpha beta gamma rho_s)"
  "NFWProfile_evaluate r r_s (fl_mul (Some c) rho_s) =
     fl_mul (Some c) (NFWProfile_evaluate r r_s rho_s)"
  "EinastoProfile_evaluate r r_s alpha (fl_mul (Some c) rho_s) =
     fl_mul (Some c) (EinastoProfile_evaluate r r_s alpha rho_s)"
  "IsothermalProfile_evaluate r r_s (fl_mul (Some c) rho_s) =
     fl_mul (Some c) (IsothermalProfile_evaluate r r_s rho_s)"
  "BurkertProfile_evaluate r r_s (fl_mul (Some c) rho_s) =
     fl_mul (Some c) (BurkertProfile_evaluate r r_s rho_s)"
  "MooreProfile_evaluate r r_s (fl_mul (Some c) rho_s) =
     fl_mul (Some c) (MooreProfile_evaluate r r_s rho_s)"
  by (simp_all add: evaluate_defs Let_def fl_div_scale fl_mul_scale)

lemma nd_map_comp: "nd_map f (nd_map g radius) = nd_map (\<lambda>r. f (g r)) radius"
  by (cases radius) simp_all

lemma evaluate_scale:
  assumes "kw ''rho_s'' = Some rho"
  shows "evaluate k radius (kw(''rho_s'' \<mapsto> fl_mul (Some c) rho)) =
         bind_res (evaluate k radius kw) (\<lambda>v. Inr (nd_map (fl_mul (Some c)) v))"
  using assms
  by (cases k)
     (simp_all add: with_arg_def bind_res_def formulas_scale nd_map_comp split: option.splits)

lemma profile_call_scaled:
  assumes d: "distinct (map par_name (parameters p))"
      and u: "update_value ''rho_s'' (\<lambda>x. fl_mul x (Some c)) (parameters p) = Inr ps"
      and c: "profile_call p radius = Inr v"
  shows "profile_call (p\<lparr>parameters := ps\<rparr>) radius = Inr (nd_map (fl_mul (Some c)) v)"
proof -
  have names: "map par_name ps = map par_name (parameters p)"
    using u by (rule update_value_names)
  from c have sig: "list_all (\<lambda>n. n \<in> set (signature (kind p))) (map par_name (parameters p))"
    and ev: "evaluate (kind p) radius (kw_of (parameters p)) = Inr v"
    using kwargs_lookup [OF d]
    by (auto simp: profile_call_def Let_def kwargs_def comp_def split: if_splits)
  have "\<exists>rho. kw_of (parameters p) ''rho_s'' = Some rho"
    using ev by (cases "kind p") (auto simp: with_arg_def split: option.splits)
  then obtain rho where rho: "kw_of (parameters p) ''rho_s'' = Some rho" ..
  have kw: "kw_of ps = (kw_of (parameters p))(''rho_s'' \<mapsto> fl_mul (Some c) rho)"
    using update_value_kw [OF u rho] by (simp add: fl_mul_commute)
  have d': "distinct (map par_name (parameters (p\<lparr>parameters := ps\<rparr>)))"
    using d names by simp
  have "profile_call (p\<lparr>parameters := ps\<rparr>) radius = evaluate (kind p) radius (kw_of ps)"
    using sig names kwargs_lookup [OF d']
    by (simp add: profile_call_def Let_def kwargs_def comp_def)
  also have "\<dots> = Inr (nd_map (fl_mul (Some c)) v)"
    unfolding kw evaluate_scale [where kw = "kw_of (parameters p)", OF rho] ev by (simp add: bind_res_def)
  finally show ?thesis .
qed

lemma NFW_default_call:
  "profile_call (NFWProfile_init None None) (Scalar (Some r)) =
   Inr (Scalar (NFWProfile_evaluate (Some r) (Some (2442 / 100)) (Some 1)))"
  by (simp add: profile_call_def NFWProfile_init_def default_arg_def unit_density_def kwargs_def
      signature_def with_arg_def Let_def)

lemma NFW_default_values:
  "profile_call (NFWProfile_init None None) (Scalar (Some (833 / 100))) =
     Inr (Scalar (Some (14562534888 / 8934445625)))"
  "profile_call (NFWProfile_init None None) (Scalar (Some 10)) =
     Inr (Scalar (Some (1820316861 / 1480920500)))"
  "profile_call (NFWProfile_init None None) (Scalar (Some 1)) =
     Inr (Scalar (Some (1820316861 / 80772050)))"
  by (simp_all add: NFW_default_call NFWProfile_evaluate_def Let_def fl_simps fl_pow_two
      power2_eq_square)

text \<open>
  C4. For a profile with distinct parameter names whose density at \<open>DISTANCE_GC\<close> is finite
  and not zero, \<open>scale_to_local_density\<close> succeeds; after it the density at
  \<open>DISTANCE_GC\<close> is \<open>LOCAL_DENSITY\<close>; the scale factor of a second call is
  \<open>LOCAL_DENSITY / LOCAL_DENSITY = 1\<close>, and the second call leaves the profile as it is.
\<close>
theorem scale_to_local_density_idempotent:
  assumes d: "distinct (map par_name (parameters p))"
      and c: "profile_call p (Scalar DISTANCE_GC) = Inr (Scalar (Some v))"
      and v: "v \<noteq> 0"
  shows "\<exists>p'. scale_to_local_density p = Inr p' \<and>
              profile_call p' (Scalar DISTANCE_GC) = Inr (Scalar LOCAL_DENSITY) \<and>
              fl_div LOCAL_DENSITY LOCAL_DENSITY = Some 1 \<and>
              scale_to_local_density p' = Inr p'"
proof -
  define c where "c = 3 / 10 / v"
  have scale: "fl_div LOCAL_DENSITY (Some v) = Some c"
    using v by (simp add: LOCAL_DENSITY_def fl_simps c_def)
  have cv: "c * v = 3 / 10"
    using v by (simp add: c_def)
  from c have ev: "evaluate (kind p) (Scalar DISTANCE_GC) (kw_of (parameters p)) = Inr (Scalar (Some v))"
    using kwargs_lookup [OF d]
    by (auto simp: profile_call_def Let_def split: if_splits)
  have "\<exists>rho. kw_of (parameters p) ''rho_s'' = Some rho"
    using ev by (cases "kind p") (auto simp: with_arg_def split: option.splits)
  then obtain rho where rho: "kw_of (parameters p) ''rho_s'' = Some rho" ..
  obtain ps where u: "update_value ''rho_s'' (\<lambda>x. fl_mul x (Some c)) (parameters p) = Inr ps"
    using update_value_defined [OF rho] by blast
  let ?p' = "p\<lparr>parameters := ps\<rparr>"
  have s1: "scale_to_local_density p = Inr ?p'"
    by (simp add: scale_to_local_density_def c bind_res_def scale u)
  have c': "profile_call ?p' (Scalar DISTANCE_GC) = Inr (Scalar LOCAL_DENSITY)"
    using profile_call_scaled [OF d u c] cv by (simp add: fl_simps LOCAL_DENSITY_def)
  have one: "fl_div LOCAL_DENSITY LOCAL_DENSITY = Some 1"
    by (simp add: LOCAL_DENSITY_def fl_simps)
  have names: "map par_name ps = map par_name (parameters p)"
    using u by (rule update_value_names)
  have d': "distinct (map par_name ps)" using d names by simp
  have kw: "kw_of ps ''rho_s'' = Some (fl_mul rho (Some c))"
    using update_value_kw [OF u rho] by simp
  have idm: "update_value ''rho_s'' (\<lambda>x. fl_mul x (Some 1)) ps = Inr ps"
    by (rule update_value_id [OF kw _ d']) (cases rho; simp add: fl_simps)
  have s2: "scale_to_local_density ?p' = Inr ?p'"
    by (simp add: scale_to_local_density_def c' bind_res_def LOCAL_DENSITY_def fl_simps idm)
  from s1 c' one s2 show ?thesis by blast
qed

theorem scale_to_local_density_idempotent_witness:
  "\<exists>p'. scale_to_local_density (NFWProfile_init None None) = Inr p' \<and>
         profile_call p' (Scalar DISTANCE_GC) = Inr (Scalar LOCAL_DENSITY) \<and>
         fl_div LOCAL_DENSITY LOCAL_DENSITY = Some 1 \<and>
         scale_to_local_density p' = Inr p'"
proof (rule scale_to_local_density_idempotent [where v = "14562534888 / 8934445625"])
  show "distinct (map par_name (parameters (NFWProfile_init None None)))"
    by (simp add: NFWProfile_init_def)
  show "profile_call (NFWProfile_init None None) (Scalar DISTANCE_GC) =
        Inr (Scalar (Some (14562534888 / 8934445625)))"
    unfolding DISTANCE_GC_def by (rule NFW_default_values)
  show "(14562534888 / 8934445625 :: real) \<noteq> 0" by simp
qed

lemma scale_to_local_density_frame:
  assumes "scale_to_local_density p = Inr p'"
  shows "kind p' = kind p"
    and "map par_name (parameters p') = map par_name (parameters p)"
    and "filter (\<lambda>q. par_name q \<noteq> ''rho_s'') (parameters p') =
         filter (\<lambda>q. par_name q \<noteq> ''rho_s'') (parameters p)"
  using assms
  by (auto simp: scale_to_local_density_def bind_res_def Let_def
      split: sum.splits nd.splits dest: update_value_names update_value_others)

text \<open>
  C9. \<open>__call__\<close>, \<open>_eval_squared\<close>, \<open>integrate_spectrum_separation\<close> and
  \<open>integral\<close> leave the profile as it was, whatever their arguments and whether they return
  or raise. \<open>scale_to_local_density\<close> keeps the kind of the profile, the names of the
  parameters and their order, and every parameter not named \<open>rho_s\<close>.
\<close>
theorem methods_frame:
  "snd (run (Call radius) p) = p \<and>
   snd (run (Eval_squared radius separation) p) = p \<and>
   snd (run (Integrate_spectrum_separation xmin xmax separation ndecade) p) = p \<and>
   snd (run (Integral kpc_in_cm xmin xmax separation ndecade) p) = p \<and>
   kind (snd (run Scale_to_local_density p)) = kind p \<and>
   map par_name (parameters (snd (run Scale_to_local_density p))) =
     map par_name (parameters p) \<and>
   filter (\<lambda>q. par_name q \<noteq> ''rho_s'') (parameters (snd (run Scale_to_local_density p))) =
     filter (\<lambda>q. par_name q \<noteq> ''rho_s'') (parameters p)"
proof (cases "scale_to_local_density p")
  case (Inl e)
  then show ?thesis by simp
next
  case (Inr p')
  with scale_to_local_density_frame [OF Inr] show ?thesis by simp
qed


subsection \<open>The integrand\<close>

lemma eval_squared_scalar:
  assumes "profile_call p (Scalar (Some r)) = Inr (Scalar (Some rho))"
  shows "eval_squared p (Scalar (Some r)) (Scalar (Some psi)) =
         Inr (Scalar (fl_div (Some (rho\<^sup>2 * r))
                (fl_sqrt (Some (r\<^sup>2 - (833 / 100 * sin psi)\<^sup>2)))))"
  using assms
  by (simp add: eval_squared_def bind_res_def fl_pow_two fl_simps DISTANCE_GC_def fl_sin_def)

text \<open>
  C6. For a radius \<open>r\<close> at which the profile returns the finite density \<open>rho\<close> and a
  separation \<open>psi\<close>: when \<open>r\<close> is strictly above the tangent radius
  \<open>|D * sin psi|\<close>, with \<open>D = 8.33\<close> kpc, \<open>_eval_squared\<close> returns
  \<open>rho\<^sup>2 * r / sqrt (r\<^sup>2 - (D * sin psi)\<^sup>2)\<close>. Nothing is clamped or validated: at
  or below the tangent radius the call raises nothing and returns a non-finite value.
\<close>
theorem eval_squared_formula:
  assumes "profile_call p (Scalar (Some r)) = Inr (Scalar (Some rho))"
  shows "(\<bar>833 / 100 * sin psi\<bar> < r \<longrightarrow>
            eval_squared p (Scalar (Some r)) (Scalar (Some psi)) =
              Inr (Scalar (Some (rho\<^sup>2 * r / sqrt (r\<^sup>2 - (833 / 100 * sin psi)\<^sup>2))))) \<and>
         (\<bar>r\<bar> \<le> \<bar>833 / 100 * sin psi\<bar> \<longrightarrow>
            eval_squared p (Scalar (Some r)) (Scalar (Some psi)) = Inr (Scalar None)) \<and>
         DISTANCE_GC = Some (833 / 100)"
proof (intro conjI impI)
  let ?t = "833 / 100 * sin psi"
  assume "\<bar>?t\<bar> < r"
  then have "\<not> \<bar>r\<bar> \<le> \<bar>?t\<bar>" by simp
  then have "?t\<^sup>2 < r\<^sup>2" unfolding abs_le_square_iff by simp
  then have "0 < sqrt (r\<^sup>2 - ?t\<^sup>2)" by simp
  then show "eval_squared p (Scalar (Some r)) (Scalar (Some psi)) =
      Inr (Scalar (Some (rho\<^sup>2 * r / sqrt (r\<^sup>2 - ?t\<^sup>2))))"
    unfolding eval_squared_scalar [OF assms] by (simp add: fl_sqrt_def fl_simps)
next
  let ?t = "833 / 100 * sin psi"
  assume "\<bar>r\<bar> \<le> \<bar>?t\<bar>"
  then have "r\<^sup>2 \<le> ?t\<^sup>2" by (simp only: abs_le_square_iff)
  then have "r\<^sup>2 - ?t\<^sup>2 < 0 \<or> r\<^sup>2 - ?t\<^sup>2 = 0" by linarith
  then show "eval_squared p (Scalar (Some r)) (Scalar (Some psi)) = Inr (Scalar None)"
    unfolding eval_squared_scalar [OF assms] by (auto simp: fl_sqrt_def fl_simps)
next
  show "DISTANCE_GC = Some (833 / 100)" by (simp add: DISTANCE_GC_def)
qed

theorem eval_squared_formula_witness:
  "eval_squared (NFWProfile_init None None) (Scalar (Some 10)) (Scalar (Some 0)) =
     Inr (Scalar (Some ((1820316861 / 1480920500)\<^sup>2 * 10 / sqrt (10\<^sup>2 - (833 / 100 * sin 0)\<^sup>2)))) \<and>
   eval_squared (NFWProfile_init None None) (Scalar (Some 1)) (Scalar (Some (pi / 2))) =
     Inr (Scalar None)"
proof
  have c: "profile_call (NFWProfile_init None None) (Scalar (Some 10)) =
           Inr (Scalar (Some (1820316861 / 1480920500)))"
    by (rule NFW_default_values)
  have "\<bar>833 / 100 * sin 0\<bar> < (10::real)" by simp
  with eval_squared_formula [OF c, of 0]
  show "eval_squared (NFWProfile_init None None) (Scalar (Some 10)) (Scalar (Some 0)) =
     Inr (Scalar (Some ((1820316861 / 1480920500)\<^sup>2 * 10 / sqrt (10\<^sup>2 - (833 / 100 * sin 0)\<^sup>2))))"
    by blast
next
  have c: "profile_call (NFWProfile_init None None) (Scalar (Some 1)) =
           Inr (Scalar (Some (1820316861 / 80772050)))"
    by (rule NFW_default_values)
  have "\<bar>1::real\<bar> \<le> \<bar>833 / 100 * sin (pi / 2)\<bar>" by simp
  with eval_squared_formula [OF c, of "pi / 2"]
  show "eval_squared (NFWProfile_init None None) (Scalar (Some 1)) (Scalar (Some (pi / 2))) =
     Inr (Scalar None)"
    by blast
qed


subsection \<open>The quadrature grid\<close>

lemma np_int32_trunc:
  assumes "- (2 ^ 31) \<le> t" "t < 2 ^ 31"
  shows "np_int32 (Some t) = Inr (if 0 \<le> t then \<lfloor>t\<rfloor> else \<lceil>t\<rceil>)"
proof -
  have a: "0 \<le> t \<Longrightarrow> \<lfloor>t\<rfloor> < 2 ^ 31" using assms(2) by (simp add: floor_less_iff)
  have b: "0 \<le> t \<Longrightarrow> - (2 ^ 31) \<le> \<lfloor>t\<rfloor>" by (simp add: le_floor_iff)
  have c: "\<not> 0 \<le> t \<Longrightarrow> - (2 ^ 31) \<le> \<lceil>t\<rceil>" using assms(1) by (simp add: le_ceiling_iff)
  have d: "\<not> 0 \<le> t \<Longrightarrow> \<lceil>t\<rceil> < 2 ^ 31" by (simp add: ceiling_less_iff)
  show ?thesis using a b c d by (auto simp: np_int32_def Let_def)
qed

lemma logspace_length:
  "0 \<le> n \<Longrightarrow> \<exists>nodes. logspace a b n = Inr nodes \<and> length nodes = nat n"
  by (simp add: logspace_def Let_def)

lemma logspace_negative: "n < 0 \<Longrightarrow> logspace a b n = Inl ValueError"
  by (simp add: logspace_def)

lemma quadrature_grid_eq:
  assumes "qvalue xmin = Some a" "0 < a" "to_value (qunit xmin) xmax = Some b" "0 < b"
  shows "quadrature_grid xmin xmax ndecade =
         bind_res (np_int32 (Some ((log 10 b - log 10 a) * ndecade)))
           (logspace (Some (log 10 a)) (Some (log 10 b)))"
  using assms by (simp add: quadrature_grid_def Let_def fl_simps fl_log10_def)

lemma grid_size_eq:
  assumes "qvalue xmin = Some a" "0 < a" "to_value (qunit xmin) xmax = Some b" "0 < b"
      and "0 \<le> (log 10 b - log 10 a) * ndecade" "(log 10 b - log 10 a) * ndecade < 2 ^ 31"
  shows "\<exists>nodes. quadrature_grid xmin xmax ndecade = Inr nodes \<and>
                 length nodes = nat \<lfloor>(log 10 b - log 10 a) * ndecade\<rfloor>"
proof -
  let ?t = "(log 10 b - log 10 a) * ndecade"
  have "np_int32 (Some ?t) = Inr \<lfloor>?t\<rfloor>"
    using np_int32_trunc [of ?t] assms(5,6) by simp
  moreover have "0 \<le> \<lfloor>?t\<rfloor>" using assms(5) by simp
  ultimately show ?thesis
    using logspace_length [of "\<lfloor>?t\<rfloor>"] 
    by (simp add: quadrature_grid_eq [OF assms(1-4)] bind_res_def)
qed

text \<open>
  C2, amended. For bounds \<open>0 < xmin < xmax\<close>, \<open>xmax\<close> converted to the unit of
  \<open>xmin\<close>, and a positive \<open>ndecade\<close> with
  \<open>(log10 xmax - log10 xmin) * ndecade < 2\<^sup>3\<^sup>1\<close>, the grid has
  \<open>floor ((log10 xmax - log10 xmin) * ndecade)\<close> nodes: \<open>np.int32\<close> truncates, it does
  not round.
\<close>
theorem grid_size_truncates:
  assumes "qvalue xmin = Some a" "0 < a" "to_value (qunit xmin) xmax = Some b" "a < b"
      and "0 < ndecade" "(log 10 b - log 10 a) * ndecade < 2 ^ 31"
  shows "grid_size xmin xmax ndecade = Inr (nat \<lfloor>(log 10 b - log 10 a) * ndecade\<rfloor>)"
proof -
  have b: "0 < b" using assms(2,4) by simp
  have "log 10 a < log 10 b" using assms(2,4) by simp
  then have "0 \<le> (log 10 b - log 10 a) * ndecade" using assms(5) by simp
  from grid_size_eq [OF assms(1-3) b this assms(6)] show ?thesis
    by (auto simp: grid_size_def)
qed

lemma log10_500: "5 / 2 \<le> log 10 500" "log 10 500 < 3"
proof -
  have "((10::real) powr 5) powr (1 / 2) = 10 powr (5 * (1 / 2))" by (rule powr_powr)
  then have "(10::real) powr (5 / 2) = (10 powr 5) powr (1 / 2)" by simp
  also have "\<dots> = sqrt (10 ^ 5)" by (simp add: powr_half_sqrt)
  also have "\<dots> \<le> 500" by (rule real_le_lsqrt) simp_all
  finally have "(10::real) powr (5 / 2) \<le> 500" .
  then show "5 / 2 \<le> log 10 500"
    using le_log_iff [of "10::real" 500 "5 / 2"] by (simp del: powr_numeral)
  have "(500::real) < 10 powr 3" by simp
  then show "log 10 500 < 3" by (simp add: log_less_iff)
qed

theorem grid_size_truncates_witness:
  "grid_size \<lparr>qvalue = Some 1, qunit = Kpc\<rparr> \<lparr>qvalue = Some 100, qunit = Kpc\<rparr> 2 = Inr 4"
proof -
  have l: "log 10 (100::real) = 2"
    using log_pow_cancel [of "10::real" 2] by simp
  have "grid_size \<lparr>qvalue = Some 1, qunit = Kpc\<rparr> \<lparr>qvalue = Some 100, qunit = Kpc\<rparr> 2 =
        Inr (nat \<lfloor>(log 10 100 - log 10 1) * 2\<rfloor>)"
    by (rule grid_size_truncates) (simp_all add: to_value_def fl_simps l)
  then show ?thesis by (simp add: l)
qed

text \<open>
  The claim as stated, with \<open>round\<close>, fails for \<open>xmin = 1 kpc\<close>, \<open>xmax = 500 kpc\<close>
  and \<open>ndecade = 1\<close>: the grid has two nodes, and \<open>round (log10 500) = 3\<close>.
\<close>
theorem grid_size_round_counterexample:
  "grid_size \<lparr>qvalue = Some 1, qunit = Kpc\<rparr> \<lparr>qvalue = Some 500, qunit = Kpc\<rparr> 1 = Inr 2 \<and>
   nat (round ((log 10 500 - log 10 1) * 1)) = 3"
proof -
  have fl: "\<lfloor>log 10 500 :: real\<rfloor> = 2"
    using log10_500 by (simp add: floor_eq_iff)
  have rd: "round (log 10 500 :: real) = 3"
    using log10_500 by (simp add: round_def floor_eq_iff)
  have "np_int32 (Some (log 10 500)) = Inr 2"
    using np_int32_trunc [of "log 10 500"] log10_500 fl by simp
  then have "grid_size \<lparr>qvalue = Some 1, qunit = Kpc\<rparr> \<lparr>qvalue = Some 500, qunit = Kpc\<rparr> 1 = Inr 2"
    by (simp add: grid_size_def quadrature_grid_def Let_def to_value_def fl_simps fl_log10_def
        bind_res_def logspace_def)
  with rd show ?thesis by simp
qed


subsection \<open>Integration over the grid\<close>

lemma well_formed_call:
  assumes "well_formed p"
  shows "\<exists>f. \<forall>radius. profile_call p radius = Inr (nd_map f radius)"
proof -
  let ?ps = "parameters p"
  from assms have d: "distinct (map par_name ?ps)"
    and s: "set (map par_name ?ps) = set (signature (kind p))"
    by (simp_all add: well_formed_def)
  have la: "list_all (\<lambda>n. n \<in> set (signature (kind p))) (map fst (kwargs p))"
    using s by (auto simp: list_all_iff kwargs_def)
  have call: "profile_call p radius = evaluate (kind p) radius (kw_of ?ps)" for radius
    using la kwargs_lookup [OF d] by (simp add: profile_call_def Let_def)
  have dom: "\<exists>v. kw_of ?ps n = Some v" if "n \<in> set (signature (kind p))" for n
  proof -
    from that s have "n \<in> fst ` set (map (\<lambda>q. (par_name q, par_value q)) ?ps)"
      by (auto simp: image_iff)
    then have "kw_of ?ps n \<noteq> None"
      unfolding kw_of_def by (simp only: map_of_eq_None_iff not_not)
    then show ?thesis by auto
  qed
  show ?thesis
  proof (cases "kind p")
    case Zhao
    with dom [of "''r_s''"] dom [of "''alpha''"] dom [of "''beta''"] dom [of "''gamma''"]
      dom [of "''rho_s''"]
    obtain a b c d e where "kw_of ?ps ''r_s'' = Some a" "kw_of ?ps ''alpha'' = Some b"
      "kw_of ?ps ''beta'' = Some c" "kw_of ?ps ''gamma'' = Some d" "kw_of ?ps ''rho_s'' = Some e"
      by (auto simp: signature_def)
    with Zhao show ?thesis by (auto simp: call with_arg_def)
  next
    case NFW
    with dom [of "''r_s''"] dom [of "''rho_s''"]
    obtain a e where "kw_of ?ps ''r_s'' = Some a" "kw_of ?ps ''rho_s'' = Some e"
      by (auto simp: signature_def)
    with NFW show ?thesis by (auto simp: call with_arg_def)
  next
    case Einasto
    with dom [of "''r_s''"] dom [of "''alpha''"] dom [of "''rho_s''"]
    obtain a b e where "kw_of ?ps ''r_s'' = Some a" "kw_of ?ps ''alpha'' = Some b"
      "kw_of ?ps ''rho_s'' = Some e"
      by (auto simp: signature_def)
    with Einasto show ?thesis by (auto simp: call with_arg_def)
  next
    case Isothermal
    with dom [of "''r_s''"] dom [of "''rho_s''"]
    obtain a e where "kw_of ?ps ''r_s'' = Some a" "kw_of ?ps ''rho_s'' = Some e"
      by (auto simp: signature_def)
    with Isothermal show ?thesis by (auto simp: call with_arg_def)
  next
    case Burkert
    with dom [of "''r_s''"] dom [of "''rho_s''"]
    obtain a e where "kw_of ?ps ''r_s'' = Some a" "kw_of ?ps ''rho_s'' = Some e"
      by (auto simp: signature_def)
    with Burkert show ?thesis by (auto simp: call with_arg_def)
  next
    case Moore
    with dom [of "''r_s''"] dom [of "''rho_s''"]
    obtain a e where "kw_of ?ps ''r_s'' = Some a" "kw_of ?ps ''rho_s'' = Some e"
      by (auto simp: signature_def)
    with Moore show ?thesis by (auto simp: call with_arg_def)
  qed
qed

lemma well_formed_NFW_default: "well_formed (NFWProfile_init None None)"
  by (simp add: well_formed_def NFWProfile_init_def signature_def)

lemma eval_squared_array_scalar:
  assumes "well_formed p"
  shows "\<exists>ys. eval_squared p (Arr xs) (Scalar s) = Inr (Arr ys) \<and> length ys = length xs"
proof -
  from well_formed_call [OF assms] obtain f
    where f: "\<And>radius. profile_call p radius = Inr (nd_map f radius)" by blast
  show ?thesis by (simp add: eval_squared_def f bind_res_def)
qed

lemma eval_squared_shape_error:
  assumes "well_formed p" "length xs \<noteq> length ss" "length xs \<noteq> 1" "length ss \<noteq> 1"
  shows "eval_squared p (Arr xs) (Arr ss) = Inl ValueError"
proof -
  from well_formed_call [OF assms(1)] obtain f
    where f: "\<And>radius. profile_call p radius = Inr (nd_map f radius)" by blast
  show ?thesis using assms(2-4) by (simp add: eval_squared_def f bind_res_def)
qed

lemma trapz_loglog_short:
  assumes "length ys = length xs" "length xs \<le> 1"
  shows "trapz_loglog (Arr ys) (Arr xs) = Inr (Arr [])"
proof -
  have "tl xs = []" using assms(2) by (cases xs) simp_all
  then show ?thesis using assms(1) by (simp add: trapz_loglog_def)
qed

lemma integrate_short_grid:
  assumes wf: "well_formed p"
      and g: "quadrature_grid xmin xmax ndecade = Inr nodes" and n: "length nodes \<le> 1"
  shows "integral k p xmin xmax (Scalar s) ndecade = Inr (Some 0)"
proof -
  let ?x = "map (\<lambda>v. fl_mul v (Some (in_kpc (qunit xmin)))) nodes"
  from eval_squared_array_scalar [OF wf, of ?x s] obtain ys
    where y: "eval_squared p (Arr ?x) (Scalar s) = Inr (Arr ys)" and l: "length ys = length ?x"
    by blast
  have t: "trapz_loglog (Arr ys) (Arr ?x) = Inr (Arr [])"
    by (rule trapz_loglog_short [OF l]) (use n in simp)
  show ?thesis
    by (simp add: integral_def integrate_spectrum_separation_def g bind_res_def Let_def y t
        fl_simps)
qed

text \<open>
  C3, amended. \<open>integrate_spectrum_separation\<close>, and hence \<open>integral\<close>, does not
  validate its bounds. For a well-formed profile, positive bounds and a scalar separation:
  when \<open>(log10 xmax - log10 xmin) * ndecade\<close> lies strictly between \<open>-1\<close> and \<open>2\<close>,
  so that the grid has no node or one node, \<open>integral\<close> returns zero and raises nothing;
  when it is at most \<open>-1\<close>, the node count is negative and the grid construction raises
  the \<open>ValueError\<close> of \<open>np.logspace\<close>.
\<close>
theorem degenerate_bounds_unchecked:
  assumes "well_formed p" "qvalue xmin = Some a" "0 < a"
      and "to_value (qunit xmin) xmax = Some b" "0 < b"
  shows "(- 1 < (log 10 b - log 10 a) * ndecade \<and> (log 10 b - log 10 a) * ndecade < 2 \<longrightarrow>
            integral k p xmin xmax (Scalar s) ndecade = Inr (Some 0)) \<and>
         (- (2 ^ 31) \<le> (log 10 b - log 10 a) * ndecade \<and> (log 10 b - log 10 a) * ndecade \<le> - 1 \<longrightarrow>
            integral k p xmin xmax (Scalar s) ndecade = Inl ValueError)"
proof (intro conjI impI)
  let ?t = "(log 10 b - log 10 a) * ndecade"
  let ?n = "if 0 \<le> ?t then \<lfloor>?t\<rfloor> else \<lceil>?t\<rceil>"
  assume t: "- 1 < ?t \<and> ?t < 2"
  then have c: "np_int32 (Some ?t) = Inr ?n"
    by (intro np_int32_trunc) simp_all
  have lo: "0 \<le> ?n" using t by (simp add: le_ceiling_iff)
  have hi: "?n \<le> 1" using t by (simp add: floor_le_iff ceiling_le_iff)
  from logspace_length [OF lo] obtain nodes
    where l: "logspace (Some (log 10 a)) (Some (log 10 b)) ?n = Inr nodes"
      and len: "length nodes = nat ?n" by blast
  have g: "quadrature_grid xmin xmax ndecade = Inr nodes"
    unfolding quadrature_grid_eq [OF assms(2-5)] c by (simp add: bind_res_def l)
  have "length nodes \<le> 1" using len hi by simp
  from integrate_short_grid [OF assms(1) g this]
  show "integral k p xmin xmax (Scalar s) ndecade = Inr (Some 0)" .
next
  let ?t = "(log 10 b - log 10 a) * ndecade"
  assume t: "- (2 ^ 31) \<le> ?t \<and> ?t \<le> - 1"
  then have c: "np_int32 (Some ?t) = Inr \<lceil>?t\<rceil>"
    using np_int32_trunc [of ?t] by simp
  have neg: "\<lceil>?t\<rceil> < 0" using t by (simp add: ceiling_less_iff)
  have g: "quadrature_grid xmin xmax ndecade = Inl ValueError"
    unfolding quadrature_grid_eq [OF assms(2-5)] c
    by (simp add: bind_res_def logspace_negative [OF neg])
  show "integral k p xmin xmax (Scalar s) ndecade = Inl ValueError"
    by (simp add: integral_def integrate_spectrum_separation_def g bind_res_def)
qed

theorem degenerate_bounds_unchecked_witness:
  "integral (30856775814913673 * 10 ^ 5) (NFWProfile_init None None)
     \<lparr>qvalue = Some 1, qunit = Kpc\<rparr> \<lparr>qvalue = Some 10, qunit = Kpc\<rparr> (Scalar (Some 0)) 1 =
     Inr (Some 0) \<and>
   integral (30856775814913673 * 10 ^ 5) (NFWProfile_init None None)
     \<lparr>qvalue = Some 10, qunit = Kpc\<rparr> \<lparr>qvalue = Some 1, qunit = Kpc\<rparr> (Scalar (Some 0)) 1 =
     Inl ValueError"
proof
  have "- 1 < (log 10 10 - log 10 1) * (1::real) \<and> (log 10 10 - log 10 1) * (1::real) < 2"
    by simp
  with degenerate_bounds_unchecked [OF well_formed_NFW_default, of
      "\<lparr>qvalue = Some 1, qunit = Kpc\<rparr>" 1 "\<lparr>qvalue = Some 10, qunit = Kpc\<rparr>" 10 1
      "30856775814913673 * 10 ^ 5" "Some 0"]
  show "integral (30856775814913673 * 10 ^ 5) (NFWProfile_init None None)
     \<lparr>qvalue = Some 1, qunit = Kpc\<rparr> \<lparr>qvalue = Some 10, qunit = Kpc\<rparr> (Scalar (Some 0)) 1 =
     Inr (Some 0)"
    by (simp add: to_value_def fl_simps)
next
  have "- (2 ^ 31) \<le> (log 10 1 - log 10 10) * (1::real) \<and> (log 10 1 - log 10 10) * (1::real) \<le> - 1"
    by simp
  with degenerate_bounds_unchecked [OF well_formed_NFW_default, of
      "\<lparr>qvalue = Some 10, qunit = Kpc\<rparr>" 10 "\<lparr>qvalue = Some 1, qunit = Kpc\<rparr>" 1 1
      "30856775814913673 * 10 ^ 5" "Some 0"]
  show "integral (30856775814913673 * 10 ^ 5) (NFWProfile_init None None)
     \<lparr>qvalue = Some 10, qunit = Kpc\<rparr> \<lparr>qvalue = Some 1, qunit = Kpc\<rparr> (Scalar (Some 0)) 1 =
     Inl ValueError"
    by (simp add: to_value_def fl_simps)
qed

text \<open>
  The claim as stated, an explicit error for degenerate bounds, fails for
  \<open>xmin = xmax = 1 kpc\<close>: the default NFW profile returns zero.
\<close>
theorem equal_bounds_return_zero_counterexample:
  "integral (30856775814913673 * 10 ^ 5) (NFWProfile_init None None)
     \<lparr>qvalue = Some 1, qunit = Kpc\<rparr> \<lparr>qvalue = Some 1, qunit = Kpc\<rparr> (Scalar (Some 0)) 10000 =
   Inr (Some 0)"
proof -
  have "np_int32 (Some 0) = Inr 0" by (simp add: np_int32_def)
  then have g: "quadrature_grid \<lparr>qvalue = Some 1, qunit = Kpc\<rparr> \<lparr>qvalue = Some 1, qunit = Kpc\<rparr>
      10000 = Inr []"
    by (simp add: quadrature_grid_def Let_def to_value_def fl_simps fl_log10_def bind_res_def
        logspace_def)
  show ?thesis
    by (rule integrate_short_grid [OF well_formed_NFW_default g]) simp
qed

text \<open>
  C1. A batch of separations is not integrated one by one. For the default NFW profile,
  \<open>rmin = 1 kpc\<close>, \<open>rmax = 100 kpc\<close> and \<open>ndecade = 2\<close> the grid has four nodes; with
  an array of two separations the integrand cannot broadcast the nodes against the
  separations, and \<open>integral\<close> raises \<open>ValueError\<close> instead of returning two values.
\<close>
theorem integral_batch_raises:
  "integral k (NFWProfile_init None None)
     \<lparr>qvalue = Some 1, qunit = Kpc\<rparr> \<lparr>qvalue = Some 100, qunit = Kpc\<rparr>
     (Arr [Some 0, Some (1 / 10)]) 2 = Inl ValueError"
proof -
  have l: "log 10 (100::real) = 2"
    using log_pow_cancel [of "10::real" 2] by simp
  have "\<exists>nodes. quadrature_grid \<lparr>qvalue = Some 1, qunit = Kpc\<rparr>
      \<lparr>qvalue = Some 100, qunit = Kpc\<rparr> 2 = Inr nodes \<and>
      length nodes = nat \<lfloor>(log 10 100 - log 10 1) * (2::real)\<rfloor>"
    by (rule grid_size_eq) (simp_all add: to_value_def fl_simps l)
  then obtain nodes where g: "quadrature_grid \<lparr>qvalue = Some 1, qunit = Kpc\<rparr>
      \<lparr>qvalue = Some 100, qunit = Kpc\<rparr> 2 = Inr nodes" and len: "length nodes = 4"
    by (auto simp: l)
  let ?x = "map (\<lambda>v. fl_mul v (Some (in_kpc Kpc))) nodes"
  have "eval_squared (NFWProfile_init None None) (Arr ?x) (Arr [Some 0, Some (1 / 10)]) =
        Inl ValueError"
    by (rule eval_squared_shape_error [OF well_formed_NFW_default]) (simp_all add: len)
  then show ?thesis
    by (simp add: integral_def integrate_spectrum_separation_def g bind_res_def Let_def)
qed

end
